theory Spec2Isabelle
  imports Main
begin

section \<open>Data model\<close>

text \<open>
  The service of \<^verbatim>\<open>src/users/users.service.ts\<close> keeps users and block edges in two
  MongoDB collections and user snapshots in a Redis cache. A collection is modelled as
  the list of its documents in natural order, the cache as a map from keys to a value and
  the second at which the key expires.

  An identifier reaches the service as a string (the \<^verbatim>\<open>id\<close> of a token's payload, a URL
  parameter) and is stored as an ObjectId. The two are kept apart: an ObjectId is given by
  its 24 hexadecimal digits in lower case, and a string becomes one only through the
  driver's constructor, which is a parameter of the model (see \<open>env\<close>).
\<close>

datatype objectid = ObjectId string

text \<open>
  The fields of a valid JavaScript \<^verbatim>\<open>Date\<close> in local time: full year, month index
  (0 to 11), day of the month and milliseconds within the day. The process runs in UTC.
\<close>

record jsdate =
  year :: int
  month :: nat
  day :: nat
  tod :: nat

text \<open>A \<^verbatim>\<open>Date\<close> object: a valid date, or \<^verbatim>\<open>Invalid Date\<close>.\<close>

datatype date_value = Invalid_Date | Date_of jsdate

text \<open>\<^verbatim>\<open>schemas/User.schema.ts\<close>; \<open>u_id\<close> is the document's \<^verbatim>\<open>_id\<close>.\<close>

record user =
  u_id :: objectid
  name :: string
  surname :: string
  username :: string
  birthdate :: jsdate

text \<open>
  \<^verbatim>\<open>schemas/Block.schema.ts\<close>; \<open>b_id\<close> is the document's \<^verbatim>\<open>_id\<close>. The two paths are
  declared with the class \<^verbatim>\<open>Types.ObjectId\<close> of the driver, not with the schema type, so
  they hold whatever value is written or queried, uncast: an ObjectId or a string.
\<close>

datatype mixed = Oid objectid | Str string

record block =
  b_id :: objectid
  userId :: mixed
  blockedUserId :: mixed

text \<open>\<^verbatim>\<open>users/dto/CreateUser.dto.ts\<close>; a request body may leave the birthdate out.\<close>

record CreateUserDto =
  c_name :: string
  c_surname :: string
  c_username :: string
  c_birthdate :: "jsdate option"

text \<open>
  Modelled from the spec: \<^verbatim>\<open>users/dto/UpdateUser.dto.ts\<close> is not among the sources; the
  spec gives the body of \<^verbatim>\<open>PUT /users\<close> as a partial update, so every field of a user
  but its identifier may be given or left out.
\<close>

record UpdateUserDto =
  p_name :: "string option"
  p_surname :: "string option"
  p_username :: "string option"
  p_birthdate :: "jsdate option"

text \<open>
  What the service throws: the token library's error, the service's own
  \<^verbatim>\<open>new Error(message)\<close>, a property read on \<^verbatim>\<open>null\<close>, the schema's validation
  error, the store's duplicate-key error, the JSON parser's and the pattern compiler's
  error, the driver's error on a string that is no ObjectId, and the query's error on a
  value it cannot cast to the type of its path.
\<close>

datatype error =
    JsonWebTokenError
  | Error string
  | TypeError
  | ValidationError
  | MongoServerError
  | SyntaxError
  | BSONError
  | CastError

datatype ack = Success

text \<open>
  The process environment and the libraries the service calls, which are not code of the
  repository:
  \<^item> \<^verbatim>\<open>process.env.JWT_SECRET\<close>;
  \<^item> \<^verbatim>\<open>jwt.sign\<close> of the payload \<^verbatim>\<open>{id}\<close> holding an ObjectId, and \<^verbatim>\<open>jwt.verify\<close>, which
    gives the \<^verbatim>\<open>id\<close> of the payload as a string (\<open>None\<close>: it throws);
  \<^item> \<^verbatim>\<open>new Types.ObjectId(string)\<close>, which is also how a query casts a string to the
    type of \<^verbatim>\<open>_id\<close> (\<open>None\<close>: the string is no ObjectId);
  \<^item> \<^verbatim>\<open>JSON.stringify\<close> and \<^verbatim>\<open>JSON.parse\<close> on user documents (\<open>None\<close>: the parser throws);
  \<^item> \<^verbatim>\<open>new RegExp(pattern, 'i')\<close>, as the test it makes of a string (\<open>None\<close>: the pattern
    does not compile).
  They are parameters of every operation.
\<close>

record env =
  JWT_SECRET :: "string option"
  jwt_sign :: "objectid \<Rightarrow> string \<Rightarrow> string"
  jwt_verify :: "string \<Rightarrow> string \<Rightarrow> string option"
  ObjectId_new :: "string \<Rightarrow> objectid option"
  JSON_stringify :: "user \<Rightarrow> string"
  JSON_parse :: "string \<Rightarrow> user option"
  RegExp_i :: "string \<Rightarrow> (string \<Rightarrow> bool) option"

record state =
  users :: "user list"
  blocks :: "block list"
  redis :: "string \<rightharpoonup> string \<times> nat"

section \<open>Dates\<close>

text \<open>
  The time value of a date, in milliseconds since the first of January 1970, by the
  day number of the first day of its year, the days of the months before it and the day
  of the month. The store compares dates by their time values.
\<close>

definition leap_year :: "int \<Rightarrow> bool" where
  "leap_year y \<longleftrightarrow> (y mod 4 = 0 \<and> y mod 100 \<noteq> 0) \<or> y mod 400 = 0"

definition DayFromYear :: "int \<Rightarrow> int" where
  "DayFromYear y =
     365 * (y - 1970) + (y - 1969) div 4 - (y - 1901) div 100 + (y - 1601) div 400"

definition MakeDay :: "int \<Rightarrow> nat \<Rightarrow> nat \<Rightarrow> int" where
  "MakeDay y m d =
     DayFromYear y
     + int (sum_list (take m [31, 28, 31, 30, 31, 30, 31, 31, 30, 31, 30, 31]))
     + (if leap_year y \<and> 2 \<le> m then 1 else 0)
     + (int d - 1)"

definition time_value :: "jsdate \<Rightarrow> int" where
  "time_value d = MakeDay (year d) (month d) (day d) * 86400000 + int (tod d)"

definition date_le :: "jsdate \<Rightarrow> jsdate \<Rightarrow> bool" where
  "date_le a b \<longleftrightarrow> time_value a \<le> time_value b"

text \<open>
  A time value more than 8.64e15 milliseconds from the epoch is clipped to
  \<^verbatim>\<open>Invalid Date\<close>.
\<close>

definition TimeClip :: "jsdate \<Rightarrow> date_value" where
  "TimeClip d =
     (if \<bar>time_value d\<bar> \<le> 8640000000000000 then Date_of d else Invalid_Date)"

definition getFullYear :: "jsdate \<Rightarrow> int" where
  "getFullYear d = year d"

text \<open>
  \<^verbatim>\<open>d.setFullYear(y)\<close> on a valid date keeps the month, the day and the time within the
  day; the 29th of February of a year that is not a leap year is the 1st of March.
\<close>

definition setFullYear :: "jsdate \<Rightarrow> int \<Rightarrow> date_value" where
  "setFullYear d y =
     TimeClip
       (if month d = 1 \<and> day d = 29 \<and> \<not> leap_year y
        then d\<lparr>year := y, month := 2, day := 1\<rparr>
        else d\<lparr>year := y\<rparr>)"

text \<open>
  \<^verbatim>\<open>new Date(y, m, d)\<close> for a month index and a day in range (the service calls it with
  0 and 1): midnight of that day; a year from 0 to 99 counts from 1900.
\<close>

definition new_Date :: "int \<Rightarrow> nat \<Rightarrow> nat \<Rightarrow> date_value" where
  "new_Date y m d =
     TimeClip
       \<lparr>year = (if 0 \<le> y \<and> y \<le> 99 then 1900 + y else y), month = m, day = d, tod = 0\<rparr>"

section \<open>The store and the cache\<close>

text \<open>
  The queries of the user model by \<^verbatim>\<open>_id\<close> cast the string they are given to an
  ObjectId and fail with \<^verbatim>\<open>CastError\<close> when it is none.
\<close>

definition findById :: "env \<Rightarrow> user list \<Rightarrow> string \<Rightarrow> error + user option" where
  "findById E us i =
     (case ObjectId_new E i of
        None \<Rightarrow> Inl CastError
      | Some oid \<Rightarrow> Inr (List.find (\<lambda>u. u_id u = oid) us))"

text \<open>Removing the first document with an \<^verbatim>\<open>_id\<close>, and replacing it.\<close>

fun deleteFirst :: "objectid \<Rightarrow> user list \<Rightarrow> user list" where
  "deleteFirst oid [] = []"
| "deleteFirst oid (u # us) = (if u_id u = oid then us else u # deleteFirst oid us)"

fun replaceFirst :: "objectid \<Rightarrow> user \<Rightarrow> user list \<Rightarrow> user list" where
  "replaceFirst oid v [] = []"
| "replaceFirst oid v (u # us) = (if u_id u = oid then v # us else u # replaceFirst oid v us)"

definition findByIdAndDelete :: "env \<Rightarrow> string \<Rightarrow> user list \<Rightarrow> error + user list" where
  "findByIdAndDelete E i us =
     (case ObjectId_new E i of
        None \<Rightarrow> Inl CastError
      | Some oid \<Rightarrow> Inr (deleteFirst oid us))"

text \<open>The fields of a partial update that are given replace the document's.\<close>

definition applyUpdate :: "UpdateUserDto \<Rightarrow> user \<Rightarrow> user" where
  "applyUpdate dto u =
     u\<lparr>name := (case p_name dto of None \<Rightarrow> name u | Some v \<Rightarrow> v),
       surname := (case p_surname dto of None \<Rightarrow> surname u | Some v \<Rightarrow> v),
       username := (case p_username dto of None \<Rightarrow> username u | Some v \<Rightarrow> v),
       birthdate := (case p_birthdate dto of None \<Rightarrow> birthdate u | Some v \<Rightarrow> v)\<rparr>"

text \<open>
  \<^verbatim>\<open>findByIdAndUpdate(id, dto, {new: true})\<close>: no document with the identifier gives
  \<^verbatim>\<open>null\<close>; the unique index on \<open>username\<close> refuses a name another document has;
  otherwise the document is replaced and the new one returned.
\<close>

definition findByIdAndUpdate ::
  "env \<Rightarrow> string \<Rightarrow> UpdateUserDto \<Rightarrow> user list \<Rightarrow> error + (user option \<times> user list)" where
  "findByIdAndUpdate E i dto us =
     (case ObjectId_new E i of
        None \<Rightarrow> Inl CastError
      | Some oid \<Rightarrow>
          (case List.find (\<lambda>u. u_id u = oid) us of
             None \<Rightarrow> Inr (None, us)
           | Some u \<Rightarrow>
               let v = applyUpdate dto u in
               if list_ex (\<lambda>w. username w = username v) (deleteFirst oid us)
               then Inl MongoServerError
               else Inr (Some v, replaceFirst oid v us)))"

text \<open>\<^verbatim>\<open>redis.get(key)\<close> at second \<open>t\<close>: the value of a key that has not expired.\<close>

definition redis_get :: "(string \<rightharpoonup> string \<times> nat) \<Rightarrow> nat \<Rightarrow> string \<Rightarrow> string option" where
  "redis_get r t k =
     (case r k of
        None \<Rightarrow> None
      | Some (v, expiry) \<Rightarrow> if t < expiry then Some v else None)"

text \<open>\<^verbatim>\<open>redis.set(key, value, 'EX', seconds)\<close> at second \<open>t\<close>.\<close>

definition redis_set_EX ::
  "(string \<rightharpoonup> string \<times> nat) \<Rightarrow> nat \<Rightarrow> string \<Rightarrow> string \<Rightarrow> nat \<Rightarrow> (string \<rightharpoonup> string \<times> nat)" where
  "redis_set_EX r t k v seconds = r(k \<mapsto> (v, t + seconds))"

definition userKey :: "string \<Rightarrow> string" where
  "userKey i = ''user:'' @ i"

section \<open>The service\<close>

text \<open>\<^verbatim>\<open>process.env.JWT_SECRET || 'secret_key'\<close>: an unset or empty variable is falsy.\<close>

definition secret :: "env \<Rightarrow> string" where
  "secret E = (case JWT_SECRET E of None \<Rightarrow> ''secret_key'' | Some s \<Rightarrow> if s = [] then ''secret_key'' else s)"

text \<open>
  The three lines every authenticated method starts with: read the secret, verify the
  token (the library throws on a token it rejects), take the payload's \<^verbatim>\<open>id\<close>, a string.
\<close>

definition verifyToken :: "env \<Rightarrow> string \<Rightarrow> error + string" where
  "verifyToken E token =
     (case jwt_verify E token (secret E) of
        None \<Rightarrow> Inl JsonWebTokenError
      | Some i \<Rightarrow> Inr i)"

text \<open>
  \<^verbatim>\<open>createUser\<close>: \<open>new_id\<close> is the ObjectId the driver generates for the new document.
  Saving fails on a required path that is missing or empty and on a duplicate
  \<^verbatim>\<open>_id\<close> or \<open>username\<close>.
\<close>

definition createUser ::
  "env \<Rightarrow> objectid \<Rightarrow> CreateUserDto \<Rightarrow> state \<Rightarrow> error + ((user \<times> string) \<times> state)" where
  "createUser E new_id dto st =
     (case c_birthdate dto of
        None \<Rightarrow> Inl ValidationError
      | Some bd \<Rightarrow>
          if c_name dto = [] \<or> c_username dto = [] then Inl ValidationError
          else if list_ex (\<lambda>u. u_id u = new_id \<or> username u = c_username dto) (users st)
          then Inl MongoServerError
          else
            let savedUser = \<lparr>u_id = new_id, name = c_name dto, surname = c_surname dto,
                  username = c_username dto, birthdate = bd\<rparr>;
                token = jwt_sign E (u_id savedUser) (secret E)
            in Inr ((savedUser, token), st\<lparr>users := users st @ [savedUser]\<rparr>))"

definition getUsers :: "state \<Rightarrow> user list" where
  "getUsers st = users st"

text \<open>\<^verbatim>\<open>getUser\<close> at second \<open>t\<close> of the cache's clock; an empty cached string is falsy.\<close>

definition getUser :: "env \<Rightarrow> nat \<Rightarrow> string \<Rightarrow> state \<Rightarrow> error + (user option \<times> state)" where
  "getUser E t token st =
     (case verifyToken E token of
        Inl e \<Rightarrow> Inl e
      | Inr uid \<Rightarrow>
          let fromStore =
            (case findById E (users st) uid of
               Inl e \<Rightarrow> Inl e
             | Inr None \<Rightarrow> Inr (None, st)
             | Inr (Some u) \<Rightarrow>
                 Inr (Some u,
                   st\<lparr>redis := redis_set_EX (redis st) t (userKey uid) (JSON_stringify E u) 3600\<rparr>))
          in
          (case redis_get (redis st) t (userKey uid) of
             None \<Rightarrow> fromStore
           | Some cachedUser \<Rightarrow>
               if cachedUser = [] then fromStore
               else (case JSON_parse E cachedUser of
                       None \<Rightarrow> Inl SyntaxError
                     | Some u \<Rightarrow> Inr (Some u, st))))"

text \<open>
  \<^verbatim>\<open>deleteUser\<close>: the filter of \<^verbatim>\<open>deleteMany\<close> carries the identifier as the string the
  token gave, and the paths of an edge are not cast: it selects the edges that hold that
  string.
\<close>

definition deleteUser :: "env \<Rightarrow> string \<Rightarrow> state \<Rightarrow> error + (ack \<times> state)" where
  "deleteUser E token st =
     (case verifyToken E token of
        Inl e \<Rightarrow> Inl e
      | Inr uid \<Rightarrow>
          (case findByIdAndDelete E uid (users st) of
             Inl e \<Rightarrow> Inl e
           | Inr us \<Rightarrow>
               Inr (Success,
                 st\<lparr>users := us,
                    blocks := filter (\<lambda>b. \<not> (userId b = Str uid \<or> blockedUserId b = Str uid))
                                (blocks st)\<rparr>)))"

text \<open>
  \<^verbatim>\<open>blockUser\<close>: \<open>new_id\<close> is the ObjectId generated for the new edge. Both lookups cast
  their string; the test against blocking oneself compares the two strings as they are;
  the actor's document is read without a check, so \<^verbatim>\<open>user._id\<close> throws when the actor
  is gone. The edge is looked up and written with the two documents' ObjectIds.
\<close>

definition blockUser ::
  "env \<Rightarrow> objectid \<Rightarrow> string \<Rightarrow> string \<Rightarrow> state \<Rightarrow> error + (user \<times> state)" where
  "blockUser E new_id target token st =
     (case verifyToken E token of
        Inl e \<Rightarrow> Inl e
      | Inr uid \<Rightarrow>
          (case findById E (users st) uid of
             Inl e \<Rightarrow> Inl e
           | Inr user \<Rightarrow>
               (case findById E (users st) target of
                  Inl e \<Rightarrow> Inl e
                | Inr None \<Rightarrow> Inl (Error ''User not found'')
                | Inr (Some blockedUser) \<Rightarrow>
                    if target = uid then Inl (Error ''You cannot block yourself'')
                    else
                      (case user of
                         None \<Rightarrow> Inl TypeError
                       | Some u \<Rightarrow>
                           if list_ex (\<lambda>b. userId b = Oid (u_id u) \<and>
                                           blockedUserId b = Oid (u_id blockedUser)) (blocks st)
                           then Inl (Error ''User already blocked'')
                           else if list_ex (\<lambda>b. b_id b = new_id) (blocks st)
                           then Inl MongoServerError
                           else
                             Inr (blockedUser,
                               st\<lparr>blocks := blocks st @
                                 [\<lparr>b_id = new_id, userId = Oid (u_id u),
                                   blockedUserId = Oid (u_id blockedUser)\<rparr>]\<rparr>)))))"

text \<open>
  The condition on \<open>birthdate\<close> that \<^verbatim>\<open>searchUsers\<close> builds,
  \<^verbatim>\<open>{ $gte?: Date; $lte?: Date }\<close>, and the condition as the query holds it once its
  dates are cast.
\<close>

record birthdate_cond =
  gte :: "date_value option"
  lte :: "date_value option"

record birthdate_range =
  from_date :: "jsdate option"
  to_date :: "jsdate option"

text \<open>
  Lines 198 to 217 of \<^verbatim>\<open>searchUsers\<close>: the object \<^verbatim>\<open>ageCondition\<close>, which stays \<^verbatim>\<open>{}\<close>
  (here \<open>None\<close>) or gets the one path \<open>birthdate\<close>. \<open>now\<close> is \<^verbatim>\<open>new Date()\<close>.
\<close>

definition ageCondition :: "jsdate \<Rightarrow> int option \<Rightarrow> int option \<Rightarrow> birthdate_cond option" where
  "ageCondition now minAge maxAge =
     (case minAge of
        Some mn \<Rightarrow>
          (case maxAge of
             Some mx \<Rightarrow>
               if mn \<le> mx
               then Some \<lparr>gte = Some (setFullYear now (getFullYear now - mx)),
                          lte = Some (setFullYear now (getFullYear now - mn))\<rparr>
               else None
           | None \<Rightarrow> Some \<lparr>gte = None, lte = Some (new_Date (getFullYear now - mn) 0 1)\<rparr>)
      | None \<Rightarrow>
          (case maxAge of
             Some mx \<Rightarrow> Some \<lparr>gte = Some (setFullYear now (getFullYear now - mx)), lte = None\<rparr>
           | None \<Rightarrow> None))"

text \<open>
  The query casts the bounds to the type of \<open>birthdate\<close> before it runs, and fails with
  \<^verbatim>\<open>CastError\<close> on an \<^verbatim>\<open>Invalid Date\<close>.
\<close>

definition castDate :: "date_value option \<Rightarrow> error + jsdate option" where
  "castDate b =
     (case b of
        None \<Rightarrow> Inr None
      | Some Invalid_Date \<Rightarrow> Inl CastError
      | Some (Date_of d) \<Rightarrow> Inr (Some d))"

definition castAgeCondition :: "birthdate_cond option \<Rightarrow> error + birthdate_range option" where
  "castAgeCondition c =
     (case c of
        None \<Rightarrow> Inr None
      | Some r \<Rightarrow>
          (case castDate (gte r) of
             Inl e \<Rightarrow> Inl e
           | Inr lo \<Rightarrow>
               (case castDate (lte r) of
                  Inl e \<Rightarrow> Inl e
                | Inr hi \<Rightarrow> Inr (Some \<lparr>from_date = lo, to_date = hi\<rparr>))))"

text \<open>
  A document against the age condition as a query: the empty query \<^verbatim>\<open>{}\<close> selects every
  document; \<^verbatim>\<open>$gte\<close> and \<^verbatim>\<open>$lte\<close> compare the document's birthdate with the bound.
\<close>

definition matchesAge :: "birthdate_range option \<Rightarrow> user \<Rightarrow> bool" where
  "matchesAge c u =
     (case c of
        None \<Rightarrow> True
      | Some r \<Rightarrow>
          (case from_date r of None \<Rightarrow> True | Some d \<Rightarrow> date_le d (birthdate u)) \<and>
          (case to_date r of None \<Rightarrow> True | Some d \<Rightarrow> date_le (birthdate u) d))"

text \<open>
  \<^verbatim>\<open>searchUsers\<close>. Line 195 queries the edges with the actor's identifier as a string,
  and line 196 maps each edge found to the edge's own \<^verbatim>\<open>_id\<close>. The conditions are built
  in the order of the object literal: the actor's ObjectId, then the pattern
  (\<^verbatim>\<open>new RegExp(undefined, 'i')\<close> is the empty pattern); the query then casts the dates.
\<close>

definition searchUsers ::
  "env \<Rightarrow> jsdate \<Rightarrow> string option \<Rightarrow> string \<Rightarrow> int option \<Rightarrow> int option \<Rightarrow> state
     \<Rightarrow> error + user list" where
  "searchUsers E now fragment token minAge maxAge st =
     (case verifyToken E token of
        Inl e \<Rightarrow> Inl e
      | Inr uid \<Rightarrow>
          let blockedUsers = filter (\<lambda>b. userId b = Str uid) (blocks st);
              blockedUserIds = map b_id blockedUsers;
              cond = ageCondition now minAge maxAge;
              pattern = (case fragment of None \<Rightarrow> [] | Some p \<Rightarrow> p)
          in
          (case ObjectId_new E uid of
             None \<Rightarrow> Inl BSONError
           | Some self \<Rightarrow>
               (case RegExp_i E pattern of
                  None \<Rightarrow> Inl SyntaxError
                | Some test \<Rightarrow>
                    (case castAgeCondition cond of
                       Inl e \<Rightarrow> Inl e
                     | Inr window \<Rightarrow>
                         Inr (filter
                           (\<lambda>u. (u_id u \<noteq> self \<and> u_id u \<notin> set blockedUserIds) \<and>
                                (test (username u) \<or> matchesAge window u))
                           (users st))))))"

text \<open>\<^verbatim>\<open>unblockUser\<close> makes ObjectIds of both strings, and the driver throws on a string that is none.\<close>

definition unblockUser :: "env \<Rightarrow> string \<Rightarrow> string \<Rightarrow> state \<Rightarrow> error + (ack \<times> state)" where
  "unblockUser E target token st =
     (case verifyToken E token of
        Inl e \<Rightarrow> Inl e
      | Inr uid \<Rightarrow>
          (case ObjectId_new E uid of
             None \<Rightarrow> Inl BSONError
           | Some a \<Rightarrow>
               (case ObjectId_new E target of
                  None \<Rightarrow> Inl BSONError
                | Some b \<Rightarrow>
                    Inr (Success,
                      st\<lparr>blocks := filter (\<lambda>e. \<not> (userId e = Oid a \<and> blockedUserId e = Oid b))
                                     (blocks st)\<rparr>))))"

definition updateUser ::
  "env \<Rightarrow> nat \<Rightarrow> string \<Rightarrow> UpdateUserDto \<Rightarrow> state \<Rightarrow> error + (user \<times> state)" where
  "updateUser E t token dto st =
     (case verifyToken E token of
        Inl e \<Rightarrow> Inl e
      | Inr uid \<Rightarrow>
          (case findByIdAndUpdate E uid dto (users st) of
             Inl e \<Rightarrow> Inl e
           | Inr (None, us) \<Rightarrow> Inl (Error ''User not found'')
           | Inr (Some updatedUser, us) \<Rightarrow>
               Inr (updatedUser,
                 st\<lparr>users := us,
                    redis := redis_set_EX (redis st) t (userKey uid)
                               (JSON_stringify E updatedUser) 3600\<rparr>)))"

section \<open>Sample data\<close>

text \<open>
  An instance of the environment and a directory of three users, on which the statements
  below are evaluated. A token is the secret followed by the identifier. A string is an
  ObjectId when it is 24 hexadecimal digits, in either case. A document is serialised by
  its identifier, name and username, and the parser reads back the serialisations of a
  given list of documents. A pattern of letters and digits compiles to the search for it
  as a substring, letters compared without case; the one other pattern used below, an
  opening parenthesis, does not compile.
\<close>

definition lower :: "char \<Rightarrow> char" where
  "lower c =
     (case map_of (zip ''ABCDEFGHIJKLMNOPQRSTUVWXYZ'' ''abcdefghijklmnopqrstuvwxyz'') c of
        None \<Rightarrow> c
      | Some l \<Rightarrow> l)"

fun starts_with :: "string \<Rightarrow> string \<Rightarrow> bool" where
  "starts_with [] s = True"
| "starts_with (p # ps) [] = False"
| "starts_with (p # ps) (c # cs) = (p = c \<and> starts_with ps cs)"

fun contains :: "string \<Rightarrow> string \<Rightarrow> bool" where
  "contains p [] = (p = [])"
| "contains p (c # cs) = (starts_with p (c # cs) \<or> contains p cs)"

definition hex_digit :: "char \<Rightarrow> bool" where
  "hex_digit c \<longleftrightarrow> c \<in> set ''0123456789abcdefABCDEF''"

definition letter_or_digit :: "char \<Rightarrow> bool" where
  "letter_or_digit c \<longleftrightarrow>
     c \<in> set ''0123456789abcdefghijklmnopqrstuvwxyzABCDEFGHIJKLMNOPQRSTUVWXYZ''"

definition sample_ObjectId :: "string \<Rightarrow> objectid option" where
  "sample_ObjectId s =
     (if length s = 24 \<and> list_all hex_digit s then Some (ObjectId (map lower s)) else None)"

definition sample_RegExp :: "string \<Rightarrow> (string \<Rightarrow> bool) option" where
  "sample_RegExp p =
     (if list_all letter_or_digit p then Some (\<lambda>s. contains (map lower p) (map lower s))
      else None)"

definition sample_sign :: "objectid \<Rightarrow> string \<Rightarrow> string" where
  "sample_sign oid k = (case oid of ObjectId h \<Rightarrow> k @ h)"

definition sample_verify :: "string \<Rightarrow> string \<Rightarrow> string option" where
  "sample_verify tok k = (if take (length k) tok = k then Some (drop (length k) tok) else None)"

definition sample_stringify :: "user \<Rightarrow> string" where
  "sample_stringify u =
     (case u_id u of ObjectId h \<Rightarrow>
        ''{_id:'' @ h @ '',name:'' @ name u @ '',username:'' @ username u @ ''}'')"

definition sample_env :: "user list \<Rightarrow> env" where
  "sample_env docs =
     \<lparr>JWT_SECRET = None,
      jwt_sign = sample_sign,
      jwt_verify = sample_verify,
      ObjectId_new = sample_ObjectId,
      JSON_stringify = sample_stringify,
      JSON_parse = (\<lambda>s. List.find (\<lambda>u. sample_stringify u = s) docs),
      RegExp_i = sample_RegExp\<rparr>"

definition alice_id :: string where
  "alice_id = ''a1a1a1a1a1a1a1a1a1a1a1a1''"

definition bob_id :: string where
  "bob_id = ''b2b2b2b2b2b2b2b2b2b2b2b2''"

definition carol_id :: string where
  "carol_id = ''c3c3c3c3c3c3c3c3c3c3c3c3''"

text \<open>Alice's identifier written with capital digits, and an identifier nobody has.\<close>

definition alice_id_caps :: string where
  "alice_id_caps = ''A1A1A1A1A1A1A1A1A1A1A1A1''"

definition nobody_id :: string where
  "nobody_id = ''d4d4d4d4d4d4d4d4d4d4d4d4''"

definition edge1 :: objectid where
  "edge1 = ObjectId ''e1e1e1e1e1e1e1e1e1e1e1e1''"

definition edge2 :: objectid where
  "edge2 = ObjectId ''e2e2e2e2e2e2e2e2e2e2e2e2''"

definition edge3 :: objectid where
  "edge3 = ObjectId ''e3e3e3e3e3e3e3e3e3e3e3e3''"

definition edge4 :: objectid where
  "edge4 = ObjectId ''e4e4e4e4e4e4e4e4e4e4e4e4''"

text \<open>The tokens of Alice, of Bob and of the identifier nobody has.\<close>

definition alice_token :: string where
  "alice_token = ''secret_key'' @ alice_id"

definition bob_token :: string where
  "bob_token = ''secret_key'' @ bob_id"

definition nobody_token :: string where
  "nobody_token = ''secret_key'' @ nobody_id"

text \<open>Born on 17 May 1990, 1 March 2000 and 31 December 1980.\<close>

definition alice :: user where
  "alice = \<lparr>u_id = ObjectId alice_id, name = ''Alice'', surname = ''Ames'', username = ''alice'',
     birthdate = \<lparr>year = 1990, month = 4, day = 17, tod = 0\<rparr>\<rparr>"

definition bob :: user where
  "bob = \<lparr>u_id = ObjectId bob_id, name = ''Bob'', surname = ''Burns'', username = ''bob'',
     birthdate = \<lparr>year = 2000, month = 2, day = 1, tod = 0\<rparr>\<rparr>"

definition carol :: user where
  "carol = \<lparr>u_id = ObjectId carol_id, name = ''Carol'', surname = ''Cole'', username = ''carol'',
     birthdate = \<lparr>year = 1980, month = 11, day = 31, tod = 0\<rparr>\<rparr>"

definition robert :: user where
  "robert = bob\<lparr>name := ''Robert''\<rparr>"

definition rename_bob :: UpdateUserDto where
  "rename_bob = \<lparr>p_name = Some ''Robert'', p_surname = None, p_username = None, p_birthdate = None\<rparr>"

definition sample_state :: state where
  "sample_state = \<lparr>users = [alice, bob, carol], blocks = [], redis = Map.empty\<rparr>"

text \<open>3 November 2026, ten in the morning.\<close>

definition sample_now :: jsdate where
  "sample_now = \<lparr>year = 2026, month = 10, day = 3, tod = 36000000\<rparr>"

text \<open>The edge the service writes when Alice blocks Bob, and the directory with it.\<close>

definition alice_blocks_bob :: block where
  "alice_blocks_bob =
     \<lparr>b_id = edge1, userId = Oid (ObjectId alice_id), blockedUserId = Oid (ObjectId bob_id)\<rparr>"

definition sample_blocked :: state where
  "sample_blocked = sample_state\<lparr>blocks := [alice_blocks_bob]\<rparr>"

definition bob_blocks_alice :: block where
  "bob_blocks_alice =
     \<lparr>b_id = edge2, userId = Oid (ObjectId bob_id), blockedUserId = Oid (ObjectId alice_id)\<rparr>"

definition bob_blocks_carol :: block where
  "bob_blocks_carol =
     \<lparr>b_id = edge3, userId = Oid (ObjectId bob_id), blockedUserId = Oid (ObjectId carol_id)\<rparr>"

definition sample_edges :: state where
  "sample_edges =
     sample_state\<lparr>blocks := [alice_blocks_bob, bob_blocks_alice, bob_blocks_carol]\<rparr>"

text \<open>An empty store beside a cache that holds Alice, and the directory with that cache.\<close>

definition sample_cached :: state where
  "sample_cached =
     \<lparr>users = [], blocks = [],
      redis = [userKey alice_id \<mapsto> (sample_stringify alice, 5000)]\<rparr>"

definition sample_live :: state where
  "sample_live = sample_state\<lparr>redis := [userKey alice_id \<mapsto> (sample_stringify alice, 5000)]\<rparr>"

section \<open>Evaluation of the sample data\<close>

lemma sample_env_sel [simp]:
  "JWT_SECRET (sample_env docs) = None"
  "jwt_sign (sample_env docs) = sample_sign"
  "jwt_verify (sample_env docs) = sample_verify"
  "ObjectId_new (sample_env docs) = sample_ObjectId"
  "JSON_stringify (sample_env docs) = sample_stringify"
  "JSON_parse (sample_env docs) = (\<lambda>s. List.find (\<lambda>u. sample_stringify u = s) docs)"
  "RegExp_i (sample_env docs) = sample_RegExp"
  by (simp_all add: sample_env_def)

lemma sample_ObjectId_ids [simp]:
  "sample_ObjectId alice_id = Some (ObjectId alice_id)"
  "sample_ObjectId bob_id = Some (ObjectId bob_id)"
  "sample_ObjectId carol_id = Some (ObjectId carol_id)"
  "sample_ObjectId nobody_id = Some (ObjectId nobody_id)"
  "sample_ObjectId alice_id_caps = Some (ObjectId alice_id)"
  "sample_ObjectId ''me'' = None"
  by (simp_all add: sample_ObjectId_def hex_digit_def lower_def alice_id_def bob_id_def
      carol_id_def nobody_id_def alice_id_caps_def)

lemma sample_ids_distinct [simp]:
  "alice_id \<noteq> bob_id" "alice_id \<noteq> carol_id" "bob_id \<noteq> carol_id"
  "bob_id \<noteq> alice_id" "carol_id \<noteq> alice_id" "carol_id \<noteq> bob_id"
  "nobody_id \<noteq> alice_id" "nobody_id \<noteq> bob_id" "nobody_id \<noteq> carol_id"
  "alice_id \<noteq> nobody_id" "bob_id \<noteq> nobody_id" "carol_id \<noteq> nobody_id"
  "alice_id_caps \<noteq> alice_id"
  by (simp_all add: alice_id_def bob_id_def carol_id_def nobody_id_def alice_id_caps_def)

lemma sample_tokens [simp]:
  "verifyToken (sample_env docs) alice_token = Inr alice_id"
  "verifyToken (sample_env docs) bob_token = Inr bob_id"
  "verifyToken (sample_env docs) nobody_token = Inr nobody_id"
  by (simp_all add: verifyToken_def secret_def sample_verify_def alice_token_def bob_token_def
      nobody_token_def)

lemma sample_users [simp]:
  "u_id alice = ObjectId alice_id" "u_id bob = ObjectId bob_id" "u_id carol = ObjectId carol_id"
  "username alice = ''alice''" "username bob = ''bob''" "username carol = ''carol''"
  "u_id robert = ObjectId bob_id" "username robert = ''bob''"
  by (simp_all add: alice_def bob_def carol_def robert_def)

lemma sample_findById [simp]:
  "findById (sample_env docs) [alice, bob, carol] alice_id = Inr (Some alice)"
  "findById (sample_env docs) [alice, bob, carol] bob_id = Inr (Some bob)"
  "findById (sample_env docs) [alice, bob, carol] carol_id = Inr (Some carol)"
  "findById (sample_env docs) [alice, bob, carol] nobody_id = Inr None"
  "findById (sample_env docs) [alice, bob, carol] alice_id_caps = Inr (Some alice)"
  "findById (sample_env docs) [alice, bob, carol] ''me'' = Inl CastError"
  by (simp_all add: findById_def)

lemma sample_RegExp_patterns [simp]:
  "sample_RegExp ''bob'' = Some (\<lambda>s. contains ''bob'' (map lower s))"
  "sample_RegExp ''zzz'' = Some (\<lambda>s. contains ''zzz'' (map lower s))"
  "sample_RegExp ''ALI'' = Some (\<lambda>s. contains ''ali'' (map lower s))"
  "sample_RegExp ''('' = None"
  by (simp_all add: sample_RegExp_def letter_or_digit_def lower_def)

lemma sample_usernames [simp]:
  "map lower ''alice'' = ''alice''" "map lower ''bob'' = ''bob''" "map lower ''carol'' = ''carol''"
  by (simp_all add: lower_def)

section \<open>Lookups in the store\<close>

lemma find_id: "List.find (\<lambda>u. u_id u = oid) us = Some u \<Longrightarrow> u_id u = oid \<and> u \<in> set us"
  by (auto simp: find_Some_iff)

lemma findById_Some:
  "findById E us i = Inr (Some u) \<Longrightarrow> ObjectId_new E i = Some (u_id u) \<and> u \<in> set us"
  by (auto simp: findById_def find_Some_iff split: option.splits)

lemma findById_cast:
  "ObjectId_new E i = Some oid \<Longrightarrow> findById E us i = Inr (List.find (\<lambda>u. u_id u = oid) us)"
  by (simp add: findById_def)

lemma find_deleteFirst:
  "distinct (map u_id us) \<Longrightarrow> List.find (\<lambda>u. u_id u = oid) (deleteFirst oid us) = None"
proof (induction us)
  case Nil
  then show ?case by simp
next
  case (Cons a us)
  show ?case
  proof (cases "u_id a = oid")
    case True
    then have "\<forall>u\<in>set us. u_id u \<noteq> oid"
      using Cons.prems by (auto simp: image_iff)
    then show ?thesis
      using True by (simp add: find_None_iff)
  next
    case False
    then show ?thesis
      using Cons by simp
  qed
qed

lemma u_id_applyUpdate [simp]: "u_id (applyUpdate dto u) = u_id u"
  by (simp add: applyUpdate_def)

lemma find_replaceFirst:
  "List.find (\<lambda>u. u_id u = oid) us = Some u \<Longrightarrow> u_id v = oid \<Longrightarrow>
     List.find (\<lambda>u. u_id u = oid) (replaceFirst oid v us) = Some v"
  by (induction us) auto

lemma findByIdAndUpdate_Some:
  assumes "findByIdAndUpdate E i dto us = Inr (Some v, us')"
  shows "\<exists>oid u. ObjectId_new E i = Some oid \<and> List.find (\<lambda>u. u_id u = oid) us = Some u \<and>
           v = applyUpdate dto u \<and> us' = replaceFirst oid v us"
  using assms by (auto simp: findByIdAndUpdate_def Let_def split: option.splits if_splits)

lemma redis_get_set_EX:
  "redis_get (redis_set_EX r t k v n) t' k = (if t' < t + n then Some v else None)"
  by (simp add: redis_get_def redis_set_EX_def)

section \<open>Block edges\<close>

text \<open>
  C8: \<^verbatim>\<open>unblockUser\<close> of an actor whose token verifies, for an actor's and a target's
  identifier that are ObjectIds, always answers with the acknowledgment; the edges left
  are exactly the edges that are not from the actor to the target, in their order; users
  and cache are untouched; when no edge from the actor to the target exists the state is
  unchanged. Nothing is asked of the store: the target need not be a user.
\<close>

theorem unblockUser_exact:
  assumes "verifyToken E token = Inr actor"
    and "ObjectId_new E actor = Some a"
    and "ObjectId_new E target = Some b"
  shows "\<exists>st'. unblockUser E target token st = Inr (Success, st') \<and>
           (\<forall>e. e \<in> set (blocks st') \<longleftrightarrow>
                  e \<in> set (blocks st) \<and> \<not> (userId e = Oid a \<and> blockedUserId e = Oid b)) \<and>
           blocks st' = filter (\<lambda>e. \<not> (userId e = Oid a \<and> blockedUserId e = Oid b)) (blocks st) \<and>
           users st' = users st \<and> redis st' = redis st \<and>
           ((\<forall>e\<in>set (blocks st). \<not> (userId e = Oid a \<and> blockedUserId e = Oid b)) \<longrightarrow> st' = st)"
proof -
  let ?keep = "\<lambda>e. \<not> (userId e = Oid a \<and> blockedUserId e = Oid b)"
  let ?st' = "st\<lparr>blocks := filter ?keep (blocks st)\<rparr>"
  have run: "unblockUser E target token st = Inr (Success, ?st')"
    using assms by (simp add: unblockUser_def)
  have noop: "(\<forall>e\<in>set (blocks st). ?keep e) \<longrightarrow> ?st' = st"
  proof
    assume "\<forall>e\<in>set (blocks st). ?keep e"
    then have "filter ?keep (blocks st) = blocks st"
      by (simp add: filter_id_conv)
    then show "?st' = st" by simp
  qed
  show ?thesis
    by (rule exI [of _ ?st']) (use run noop in auto)
qed

text \<open>
  On the sample edges, Alice unblocking Bob removes her edge to him and leaves Bob's two
  edges; unblocking an identifier nobody has changes nothing.
\<close>

theorem unblockUser_exact_witness:
  "verifyToken (sample_env []) alice_token = Inr alice_id \<and>
   ObjectId_new (sample_env []) alice_id = Some (ObjectId alice_id) \<and>
   ObjectId_new (sample_env []) bob_id = Some (ObjectId bob_id) \<and>
   ObjectId_new (sample_env []) nobody_id = Some (ObjectId nobody_id) \<and>
   unblockUser (sample_env []) bob_id alice_token sample_edges =
     Inr (Success, sample_edges\<lparr>blocks := [bob_blocks_alice, bob_blocks_carol]\<rparr>) \<and>
   unblockUser (sample_env []) nobody_id alice_token sample_edges = Inr (Success, sample_edges)"
proof -
  let ?E = "sample_env []"
  have tok: "verifyToken ?E alice_token = Inr alice_id"
    by simp
  have a: "ObjectId_new ?E alice_id = Some (ObjectId alice_id)"
    and b: "ObjectId_new ?E bob_id = Some (ObjectId bob_id)"
    and n: "ObjectId_new ?E nobody_id = Some (ObjectId nobody_id)"
    by simp_all
  from unblockUser_exact [OF tok a b, of sample_edges] obtain st1 where
    run1: "unblockUser ?E bob_id alice_token sample_edges = Inr (Success, st1)"
    by blast
  from unblockUser_exact [OF tok a n, of sample_edges] obtain st2 where
    run2: "unblockUser ?E nobody_id alice_token sample_edges = Inr (Success, st2)"
    and noop: "(\<forall>e\<in>set (blocks sample_edges).
                  \<not> (userId e = Oid (ObjectId alice_id) \<and> blockedUserId e = Oid (ObjectId nobody_id)))
                 \<longrightarrow> st2 = sample_edges"
    by blast
  have "st2 = sample_edges"
    using noop
    by (simp add: sample_edges_def alice_blocks_bob_def bob_blocks_alice_def bob_blocks_carol_def)
  moreover have "st1 = sample_edges\<lparr>blocks := [bob_blocks_alice, bob_blocks_carol]\<rparr>"
    using run1
    by (simp add: unblockUser_def sample_edges_def alice_blocks_bob_def bob_blocks_alice_def
        bob_blocks_carol_def)
  ultimately show ?thesis
    using tok a b n run1 run2 by simp
qed

text \<open>A target that is no ObjectId makes the driver throw, whatever the edges.\<close>

lemma unblockUser_BSONError:
  assumes "verifyToken E token = Inr actor" and "ObjectId_new E target = None"
  shows "unblockUser E target token st = Inl BSONError"
  using assms by (simp add: unblockUser_def split: option.splits)

text \<open>
  The edges the service writes hold ObjectIds, and \<^verbatim>\<open>deleteUser\<close> selects edges by a
  string: it leaves every such edge in place.
\<close>

lemma deleteUser_keeps_edges:
  assumes "verifyToken E token = Inr U"
    and "deleteUser E token st = Inr (r, st')"
    and "\<forall>e\<in>set (blocks st). \<exists>x y. userId e = Oid x \<and> blockedUserId e = Oid y"
  shows "blocks st' = blocks st"
proof -
  have "filter (\<lambda>b. \<not> (userId b = Str U \<or> blockedUserId b = Str U)) (blocks st) = blocks st"
    using assms(3) by (auto simp: filter_id_conv)
  then show ?thesis
    using assms(1,2) by (auto simp: deleteUser_def split: sum.splits)
qed

text \<open>
  C7 (after \<^verbatim>\<open>deleteUser\<close> no edge has the deleted user as blocker or as blockee) does
  not hold of the code. Alice blocks Bob in the sample directory, which stores the edge
  with the two ObjectIds. Alice then deletes her account: she is removed from the users
  and the edge with her as blocker stays. Had Bob deleted his account instead, the edge
  with him as blockee would have stayed as well.
\<close>

theorem deleteUser_leaves_edges:
  "blockUser (sample_env []) edge1 bob_id alice_token sample_state = Inr (bob, sample_blocked) \<and>
   blocks sample_blocked = [alice_blocks_bob] \<and>
   userId alice_blocks_bob = Oid (u_id alice) \<and> blockedUserId alice_blocks_bob = Oid (u_id bob) \<and>
   deleteUser (sample_env []) alice_token sample_blocked =
     Inr (Success, \<lparr>users = [bob, carol], blocks = [alice_blocks_bob], redis = Map.empty\<rparr>) \<and>
   deleteUser (sample_env []) bob_token sample_blocked =
     Inr (Success, \<lparr>users = [alice, carol], blocks = [alice_blocks_bob], redis = Map.empty\<rparr>)"
  by (simp add: blockUser_def deleteUser_def findByIdAndDelete_def sample_blocked_def
      sample_state_def alice_blocks_bob_def)

section \<open>The cache in front of the store\<close>

text \<open>
  C4: \<^verbatim>\<open>getUser\<close> of a token that verifies for the subject consults the cache first. On a
  hit (a live entry whose string is not empty) it returns what the parser makes of the
  cached string, whatever the store holds, and changes nothing. On a miss it reads the
  store: a user that is found is returned, and its serialisation is written under the
  subject's key with an expiry 3600 seconds later, so that the entry is read back until
  then and no longer after; a user that is not found gives \<open>None\<close> and the state,
  cache included, is unchanged; a lookup that fails (the subject is no ObjectId) fails
  the call.
\<close>

theorem getUser_cache_aside:
  assumes "verifyToken E token = Inr S"
  shows "(\<forall>c. redis_get (redis st) t (userKey S) = Some c \<and> c \<noteq> [] \<longrightarrow>
            (\<forall>us. getUser E t token (st\<lparr>users := us\<rparr>) =
               (case JSON_parse E c of
                  None \<Rightarrow> Inl SyntaxError
                | Some u \<Rightarrow> Inr (Some u, st\<lparr>users := us\<rparr>)))) \<and>
         (redis_get (redis st) t (userKey S) \<in> {None, Some []} \<longrightarrow>
            (\<forall>u. findById E (users st) S = Inr (Some u) \<longrightarrow>
               (\<exists>st'. getUser E t token st = Inr (Some u, st') \<and>
                  users st' = users st \<and> blocks st' = blocks st \<and>
                  redis st' = (redis st)(userKey S \<mapsto> (JSON_stringify E u, t + 3600)) \<and>
                  (\<forall>t'. redis_get (redis st') t' (userKey S) =
                     (if t' < t + 3600 then Some (JSON_stringify E u) else None)))) \<and>
            (findById E (users st) S = Inr None \<longrightarrow> getUser E t token st = Inr (None, st)) \<and>
            (\<forall>e. findById E (users st) S = Inl e \<longrightarrow> getUser E t token st = Inl e))"
proof (intro conjI allI impI)
  fix c us
  assume "redis_get (redis st) t (userKey S) = Some c \<and> c \<noteq> []"
  then show "getUser E t token (st\<lparr>users := us\<rparr>) =
      (case JSON_parse E c of None \<Rightarrow> Inl SyntaxError | Some u \<Rightarrow> Inr (Some u, st\<lparr>users := us\<rparr>))"
    using assms by (simp add: getUser_def Let_def)
next
  fix u
  assume miss: "redis_get (redis st) t (userKey S) \<in> {None, Some []}"
    and found: "findById E (users st) S = Inr (Some u)"
  let ?st' = "st\<lparr>redis := redis_set_EX (redis st) t (userKey S) (JSON_stringify E u) 3600\<rparr>"
  have "getUser E t token st = Inr (Some u, ?st')"
    using assms miss found by (auto simp: getUser_def Let_def)
  moreover have "redis ?st' = (redis st)(userKey S \<mapsto> (JSON_stringify E u, t + 3600))"
    by (simp add: redis_set_EX_def)
  moreover have "\<forall>t'. redis_get (redis ?st') t' (userKey S) =
      (if t' < t + 3600 then Some (JSON_stringify E u) else None)"
    by (simp add: redis_get_set_EX)
  ultimately show "\<exists>st'. getUser E t token st = Inr (Some u, st') \<and>
      users st' = users st \<and> blocks st' = blocks st \<and>
      redis st' = (redis st)(userKey S \<mapsto> (JSON_stringify E u, t + 3600)) \<and>
      (\<forall>t'. redis_get (redis st') t' (userKey S) =
         (if t' < t + 3600 then Some (JSON_stringify E u) else None))"
    by (intro exI [of _ ?st']) simp
next
  assume "redis_get (redis st) t (userKey S) \<in> {None, Some []}"
    and "findById E (users st) S = Inr None"
  then show "getUser E t token st = Inr (None, st)"
    using assms by (auto simp: getUser_def Let_def)
next
  fix e
  assume "redis_get (redis st) t (userKey S) \<in> {None, Some []}"
    and "findById E (users st) S = Inl e"
  then show "getUser E t token st = Inl e"
    using assms by (auto simp: getUser_def Let_def)
qed

text \<open>
  A hit on a cache that holds Alice beside an empty store; a miss that fills the cache from
  the sample directory; a miss for an identifier nobody has.
\<close>

theorem getUser_cache_aside_witness:
  "verifyToken (sample_env [alice]) alice_token = Inr alice_id \<and>
   verifyToken (sample_env [alice]) nobody_token = Inr nobody_id \<and>
   getUser (sample_env [alice]) 100 alice_token sample_cached = Inr (Some alice, sample_cached) \<and>
   (\<exists>st'. getUser (sample_env [alice]) 100 alice_token sample_state = Inr (Some alice, st') \<and>
      redis st' = [userKey alice_id \<mapsto> (sample_stringify alice, 3700)]) \<and>
   getUser (sample_env [alice]) 100 nobody_token sample_state = Inr (None, sample_state)"
proof -
  let ?E = "sample_env [alice]"
  have tokA: "verifyToken ?E alice_token = Inr alice_id"
    and tokZ: "verifyToken ?E nobody_token = Inr nobody_id"
    by simp_all
  have hit: "redis_get (redis sample_cached) 100 (userKey alice_id) = Some (sample_stringify alice) \<and>
      sample_stringify alice \<noteq> []"
    by (simp add: redis_get_def sample_cached_def sample_stringify_def split: objectid.splits)
  have "getUser ?E 100 alice_token (sample_cached\<lparr>users := []\<rparr>) =
      (case JSON_parse ?E (sample_stringify alice) of
         None \<Rightarrow> Inl SyntaxError
       | Some u \<Rightarrow> Inr (Some u, sample_cached\<lparr>users := []\<rparr>))"
    using getUser_cache_aside [OF tokA, of sample_cached 100, THEN conjunct1] hit by blast
  then have c1: "getUser ?E 100 alice_token sample_cached = Inr (Some alice, sample_cached)"
    by (simp add: sample_cached_def)
  have miss: "redis_get (redis sample_state) 100 (userKey alice_id) \<in> {None, Some []}"
    "redis_get (redis sample_state) 100 (userKey nobody_id) \<in> {None, Some []}"
    by (simp_all add: redis_get_def sample_state_def)
  have found: "findById ?E (users sample_state) alice_id = Inr (Some alice)"
    and absent: "findById ?E (users sample_state) nobody_id = Inr None"
    by (simp_all add: sample_state_def)
  have "\<exists>st'. getUser ?E 100 alice_token sample_state = Inr (Some alice, st') \<and>
      redis st' = (redis sample_state)(userKey alice_id \<mapsto> (JSON_stringify ?E alice, 100 + 3600))"
    using getUser_cache_aside [OF tokA, of sample_state 100, THEN conjunct2] miss(1) found
    by blast
  then have c2: "\<exists>st'. getUser ?E 100 alice_token sample_state = Inr (Some alice, st') \<and>
      redis st' = [userKey alice_id \<mapsto> (sample_stringify alice, 3700)]"
    by (simp add: sample_state_def)
  have c3: "getUser ?E 100 nobody_token sample_state = Inr (None, sample_state)"
    using getUser_cache_aside [OF tokZ, of sample_state 100, THEN conjunct2] miss(2) absent
    by blast
  show ?thesis
    using tokA tokZ c1 c2 c3 by simp
qed

lemma updateUser_Inr:
  assumes "verifyToken E token = Inr S" and "updateUser E t token dto st = Inr (u', st')"
  shows "\<exists>us. findByIdAndUpdate E S dto (users st) = Inr (Some u', us) \<and>
           st' = st\<lparr>users := us,
                   redis := redis_set_EX (redis st) t (userKey S) (JSON_stringify E u') 3600\<rparr>"
  using assms by (auto simp: updateUser_def split: sum.splits option.splits prod.splits)

text \<open>
  C6: after an \<^verbatim>\<open>updateUser\<close> that succeeds at second \<open>t\<close>, the store holds the updated
  record, the cache entry of the subject is its serialisation with the expiry counted
  again from \<open>t\<close>, and a \<^verbatim>\<open>getUser\<close> of the same token before the entry expires is a cache
  hit that returns the parse of that serialisation: the updated record, for a parser that
  reads back what the serialiser wrote. A serialisation is a JSON text and never the empty
  string, which the hit test takes for a miss.
\<close>

theorem updateUser_then_getUser:
  assumes tok: "verifyToken E token = Inr S"
    and upd: "updateUser E t token dto st = Inr (u', st')"
    and live: "t' < t + 3600"
    and nonempty: "JSON_stringify E u' \<noteq> []"
  shows "findById E (users st') S = Inr (Some u') \<and>
         redis st' (userKey S) = Some (JSON_stringify E u', t + 3600) \<and>
         getUser E t' token st' =
           (case JSON_parse E (JSON_stringify E u') of
              None \<Rightarrow> Inl SyntaxError
            | Some v \<Rightarrow> Inr (Some v, st')) \<and>
         (JSON_parse E (JSON_stringify E u') = Some u' \<longrightarrow>
            getUser E t' token st' = Inr (Some u', st'))"
proof -
  from updateUser_Inr [OF tok upd] obtain us where
    fu: "findByIdAndUpdate E S dto (users st) = Inr (Some u', us)" and
    st': "st' = st\<lparr>users := us,
            redis := redis_set_EX (redis st) t (userKey S) (JSON_stringify E u') 3600\<rparr>"
    by blast
  from findByIdAndUpdate_Some [OF fu] obtain oid u where
    oid: "ObjectId_new E S = Some oid" and
    u: "List.find (\<lambda>u. u_id u = oid) (users st) = Some u" "u' = applyUpdate dto u"
       "us = replaceFirst oid u' (users st)"
    by blast
  have id: "u_id u' = oid"
    using find_id [OF u(1)] u(2) by simp
  have store: "findById E (users st') S = Inr (Some u')"
    using u(1,3) id st' oid by (simp add: findById_cast find_replaceFirst)
  have entry: "redis st' (userKey S) = Some (JSON_stringify E u', t + 3600)"
    using st' by (simp add: redis_set_EX_def)
  have hit: "redis_get (redis st') t' (userKey S) = Some (JSON_stringify E u')"
    using entry live by (simp add: redis_get_def)
  have get: "getUser E t' token st' =
      (case JSON_parse E (JSON_stringify E u') of
         None \<Rightarrow> Inl SyntaxError | Some v \<Rightarrow> Inr (Some v, st'))"
    using tok hit nonempty by (simp add: getUser_def Let_def)
  show ?thesis
    using store entry get by simp
qed

text \<open>
  Bob renames himself Robert at second 100 and fetches himself at second 3699.
\<close>

theorem updateUser_then_getUser_witness:
  "verifyToken (sample_env [robert]) bob_token = Inr bob_id \<and>
   updateUser (sample_env [robert]) 100 bob_token rename_bob sample_state =
     Inr (robert, \<lparr>users = [alice, robert, carol], blocks = [],
            redis = [userKey bob_id \<mapsto> (sample_stringify robert, 3700)]\<rparr>) \<and>
   getUser (sample_env [robert]) 3699 bob_token
       \<lparr>users = [alice, robert, carol], blocks = [],
        redis = [userKey bob_id \<mapsto> (sample_stringify robert, 3700)]\<rparr> =
     Inr (Some robert, \<lparr>users = [alice, robert, carol], blocks = [],
            redis = [userKey bob_id \<mapsto> (sample_stringify robert, 3700)]\<rparr>)"
proof -
  let ?E = "sample_env [robert]"
  let ?st' = "\<lparr>users = [alice, robert, carol], blocks = [],
        redis = [userKey bob_id \<mapsto> (sample_stringify robert, 3700)]\<rparr>"
  have tok: "verifyToken ?E bob_token = Inr bob_id"
    by simp
  have "applyUpdate rename_bob bob = robert"
    by (simp add: applyUpdate_def rename_bob_def robert_def)
  then have upd: "updateUser ?E 100 bob_token rename_bob sample_state = Inr (robert, ?st')"
    by (simp add: updateUser_def findByIdAndUpdate_def Let_def redis_set_EX_def sample_state_def)
  have live: "(3699::nat) < 100 + 3600"
    by simp
  have nonempty: "JSON_stringify ?E robert \<noteq> []"
    by (simp add: sample_stringify_def split: objectid.splits)
  have parse: "JSON_parse ?E (JSON_stringify ?E robert) = Some robert"
    by simp
  have "getUser ?E 3699 bob_token ?st' = Inr (Some robert, ?st')"
    using updateUser_then_getUser [OF tok upd live nonempty] parse by blast
  then show ?thesis
    using tok upd by simp
qed

text \<open>
  C10: \<^verbatim>\<open>deleteUser\<close> leaves the cache as it was. When the subject has a live entry that
  parses to a snapshot, a \<^verbatim>\<open>getUser\<close> after the deletion still returns that snapshot,
  although (identifiers being unique) the store no longer has the user.
\<close>

theorem deleteUser_keeps_cache:
  assumes tok: "verifyToken E token = Inr U"
    and hit: "redis_get (redis st) t (userKey U) = Some c" "c \<noteq> []"
    and snap: "JSON_parse E c = Some u"
    and del: "deleteUser E token st = Inr (r, st')"
  shows "redis st' = redis st \<and> getUser E t token st' = Inr (Some u, st') \<and>
         (distinct (map u_id (users st)) \<longrightarrow> findById E (users st') U = Inr None)"
proof -
  from tok del obtain oid where oid: "ObjectId_new E U = Some oid"
    and st': "st' = st\<lparr>users := deleteFirst oid (users st),
      blocks := filter (\<lambda>b. \<not> (userId b = Str U \<or> blockedUserId b = Str U)) (blocks st)\<rparr>"
    by (auto simp: deleteUser_def findByIdAndDelete_def split: option.splits)
  have cache: "redis st' = redis st"
    by (simp add: st')
  have "getUser E t token st' = Inr (Some u, st')"
    using tok hit snap cache by (simp add: getUser_def Let_def)
  then show ?thesis
    using cache oid by (simp add: st' findById_cast find_deleteFirst)
qed

text \<open>
  Alice, cached until second 5000, deletes her account and is still fetched at second 100.
\<close>

theorem deleteUser_keeps_cache_witness:
  "verifyToken (sample_env [alice]) alice_token = Inr alice_id \<and>
   redis_get (redis sample_live) 100 (userKey alice_id) = Some (sample_stringify alice) \<and>
   deleteUser (sample_env [alice]) alice_token sample_live =
     Inr (Success, sample_live\<lparr>users := [bob, carol]\<rparr>) \<and>
   findById (sample_env [alice]) (users (sample_live\<lparr>users := [bob, carol]\<rparr>)) alice_id = Inr None \<and>
   getUser (sample_env [alice]) 100 alice_token (sample_live\<lparr>users := [bob, carol]\<rparr>) =
     Inr (Some alice, sample_live\<lparr>users := [bob, carol]\<rparr>)"
proof -
  let ?E = "sample_env [alice]"
  have tok: "verifyToken ?E alice_token = Inr alice_id"
    by simp
  have hit: "redis_get (redis sample_live) 100 (userKey alice_id) = Some (sample_stringify alice)"
    and nonempty: "sample_stringify alice \<noteq> []"
    by (simp_all add: redis_get_def sample_live_def sample_stringify_def split: objectid.splits)
  have snap: "JSON_parse ?E (sample_stringify alice) = Some alice"
    by simp
  have del: "deleteUser ?E alice_token sample_live =
      Inr (Success, sample_live\<lparr>users := [bob, carol]\<rparr>)"
    by (simp add: deleteUser_def findByIdAndDelete_def sample_live_def sample_state_def)
  have ids: "distinct (map u_id (users sample_live))"
    by (simp add: sample_live_def sample_state_def)
  show ?thesis
    using tok hit del ids deleteUser_keeps_cache [OF tok hit nonempty snap del] by blast
qed

section \<open>Staleness of the cache\<close>

text \<open>
  After a miss has filled the cache at second \<open>t\<close>, a \<^verbatim>\<open>getUser\<close> before second
  \<open>t + 3600\<close> returns the cached snapshot whatever the store has become, and from second
  \<open>t + 3600\<close> on it returns what the store holds.
\<close>

theorem getUser_stale_until_expiry:
  assumes tok: "verifyToken E token = Inr S"
    and miss: "redis_get (redis st) t (userKey S) = None"
    and found: "findById E (users st) S = Inr (Some u)"
    and fill: "getUser E t token st = Inr (r, st1)"
    and nonempty: "JSON_stringify E u \<noteq> []"
  shows "(t' < t + 3600 \<longrightarrow>
            getUser E t' token (st1\<lparr>users := us\<rparr>) =
              (case JSON_parse E (JSON_stringify E u) of
                 None \<Rightarrow> Inl SyntaxError
               | Some v \<Rightarrow> Inr (Some v, st1\<lparr>users := us\<rparr>))) \<and>
         (t + 3600 \<le> t' \<longrightarrow>
            (\<exists>found' st2. findById E us S = Inr found' \<and>
               getUser E t' token (st1\<lparr>users := us\<rparr>) = Inr (found', st2)))"
proof -
  have st1: "st1 = st\<lparr>redis := redis_set_EX (redis st) t (userKey S) (JSON_stringify E u) 3600\<rparr>"
    using tok miss found fill by (simp add: getUser_def Let_def)
  have get: "redis_get (redis (st1\<lparr>users := us\<rparr>)) t' (userKey S) =
      (if t' < t + 3600 then Some (JSON_stringify E u) else None)"
    by (simp add: st1 redis_get_set_EX)
  have fresh: "t' < t + 3600 \<longrightarrow>
      getUser E t' token (st1\<lparr>users := us\<rparr>) =
        (case JSON_parse E (JSON_stringify E u) of
           None \<Rightarrow> Inl SyntaxError
         | Some v \<Rightarrow> Inr (Some v, st1\<lparr>users := us\<rparr>))"
    using tok get nonempty by (simp add: getUser_def Let_def)
  from findById_Some [OF found] have cast: "findById E us S = Inr (List.find (\<lambda>w. u_id w = u_id u) us)"
    by (simp add: findById_cast)
  have expired: "t + 3600 \<le> t' \<longrightarrow>
      (\<exists>found' st2. findById E us S = Inr found' \<and>
         getUser E t' token (st1\<lparr>users := us\<rparr>) = Inr (found', st2))"
    using tok get cast
    by (cases "List.find (\<lambda>w. u_id w = u_id u) us") (simp_all add: getUser_def Let_def)
  show ?thesis
    using fresh expired by simp
qed

text \<open>
  Alice is cached at second 100 and then removed from the store behind the service's
  back: she is still returned at second 3699 and no longer at second 3700.
\<close>

theorem getUser_stale_until_expiry_witness:
  "verifyToken (sample_env [alice]) alice_token = Inr alice_id \<and>
   getUser (sample_env [alice]) 100 alice_token sample_state =
     Inr (Some alice, sample_state\<lparr>redis := [userKey alice_id \<mapsto> (sample_stringify alice, 3700)]\<rparr>) \<and>
   getUser (sample_env [alice]) 3699 alice_token
       (sample_state\<lparr>redis := [userKey alice_id \<mapsto> (sample_stringify alice, 3700)],
                     users := [bob]\<rparr>) =
     Inr (Some alice,
       sample_state\<lparr>redis := [userKey alice_id \<mapsto> (sample_stringify alice, 3700)], users := [bob]\<rparr>) \<and>
   (\<exists>st2. getUser (sample_env [alice]) 3700 alice_token
       (sample_state\<lparr>redis := [userKey alice_id \<mapsto> (sample_stringify alice, 3700)],
                     users := [bob]\<rparr>) = Inr (None, st2))"
proof -
  let ?E = "sample_env [alice]"
  let ?st1 = "sample_state\<lparr>redis := [userKey alice_id \<mapsto> (sample_stringify alice, 3700)]\<rparr>"
  have tok: "verifyToken ?E alice_token = Inr alice_id"
    by simp
  have miss: "redis_get (redis sample_state) 100 (userKey alice_id) = None"
    by (simp add: redis_get_def sample_state_def)
  have found: "findById ?E (users sample_state) alice_id = Inr (Some alice)"
    by (simp add: sample_state_def)
  have fill: "getUser ?E 100 alice_token sample_state = Inr (Some alice, ?st1)"
    using miss by (simp add: getUser_def Let_def redis_set_EX_def sample_state_def)
  have nonempty: "JSON_stringify ?E alice \<noteq> []"
    by (simp add: sample_stringify_def split: objectid.splits)
  note T = getUser_stale_until_expiry [OF tok miss found fill nonempty, of _ "[bob]"]
  have c1: "getUser ?E 3699 alice_token (?st1\<lparr>users := [bob]\<rparr>) =
      Inr (Some alice, ?st1\<lparr>users := [bob]\<rparr>)"
    using T [of 3699, THEN conjunct1] by simp
  have "findById ?E [bob] alice_id = Inr None"
    by (simp add: findById_def)
  then have c2: "\<exists>st2. getUser ?E 3700 alice_token (?st1\<lparr>users := [bob]\<rparr>) = Inr (None, st2)"
    using T [of 3700, THEN conjunct2] by auto
  show ?thesis
    using tok fill c1 c2 by simp
qed

section \<open>Creating a block edge\<close>

lemma blockUser_found:
  assumes "verifyToken E token = Inr uid"
    and "findById E (users st) uid = Inr (Some x)"
    and "findById E (users st) target = Inr (Some y)"
    and "target \<noteq> uid"
  shows "blockUser E new_id target token st =
     (if list_ex (\<lambda>e. userId e = Oid (u_id x) \<and> blockedUserId e = Oid (u_id y)) (blocks st)
      then Inl (Error ''User already blocked'')
      else if list_ex (\<lambda>e. b_id e = new_id) (blocks st) then Inl MongoServerError
      else Inr (y, st\<lparr>blocks := blocks st @
                  [\<lparr>b_id = new_id, userId = Oid (u_id x), blockedUserId = Oid (u_id y)\<rparr>]\<rparr>))"
  using assms by (simp add: blockUser_def)

lemma blockUser_Inr:
  assumes tok: "verifyToken E token = Inr uid"
    and run: "blockUser E new_id target token st = Inr (u, st')"
  shows "\<exists>x. findById E (users st) uid = Inr (Some x) \<and>
           findById E (users st) target = Inr (Some u) \<and> target \<noteq> uid \<and>
           st' = st\<lparr>blocks := blocks st @
                  [\<lparr>b_id = new_id, userId = Oid (u_id x), blockedUserId = Oid (u_id u)\<rparr>]\<rparr>"
  using tok run
  by (auto simp: blockUser_def split: sum.splits option.splits if_splits)

text \<open>
  C5 (blocking oneself fails with InvalidOperationError, an existing edge fails with
  ConflictError, a target that is no user fails with NotFoundError) does not hold of the
  code. The target is looked up as an ObjectId and compared with the actor as a string:
  Alice, giving her own identifier in capital digits, is found, passes the test against
  blocking oneself and gets an edge from herself to herself. And the actor's document is
  read without a check: after Alice has blocked Bob and deleted her account, her token,
  which still verifies, blocks Bob again into a \<^verbatim>\<open>TypeError\<close>, not into the conflict.
  A target that is no ObjectId fails in the lookup, before it can be found missing.
\<close>

theorem blockUser_self_loop:
  "verifyToken (sample_env []) alice_token = Inr alice_id \<and>
   alice_id_caps \<noteq> alice_id \<and>
   ObjectId_new (sample_env []) alice_id_caps = Some (u_id alice) \<and>
   blockUser (sample_env []) edge1 alice_id_caps alice_token sample_state =
     Inr (alice, sample_state\<lparr>blocks :=
       [\<lparr>b_id = edge1, userId = Oid (u_id alice), blockedUserId = Oid (u_id alice)\<rparr>]\<rparr>) \<and>
   deleteUser (sample_env []) alice_token sample_blocked =
     Inr (Success, \<lparr>users = [bob, carol], blocks = [alice_blocks_bob], redis = Map.empty\<rparr>) \<and>
   blockUser (sample_env []) edge4 bob_id alice_token
       \<lparr>users = [bob, carol], blocks = [alice_blocks_bob], redis = Map.empty\<rparr> = Inl TypeError \<and>
   blockUser (sample_env []) edge1 ''me'' alice_token sample_state = Inl CastError"
  by (simp add: blockUser_def deleteUser_def findByIdAndDelete_def findById_def
      sample_blocked_def sample_state_def alice_blocks_bob_def)

text \<open>
  What \<^verbatim>\<open>blockUser\<close> does for an actor whose token verifies, when the actor's and the
  target's identifier are ObjectIds, in the order of its checks. A target that is no user
  fails with \<^verbatim>\<open>User not found\<close>; a target that is a user and the very string of the
  actor fails with \<^verbatim>\<open>You cannot block yourself\<close>; for an actor that is a user and
  another target, an existing edge between their ObjectIds fails with
  \<^verbatim>\<open>User already blocked\<close>. Every success returns the target's record and appends the edge
  between the two ObjectIds, leaving users and cache as they were; and the call does
  succeed when actor and target are users, the strings differ, no such edge exists and the
  new edge's identifier is fresh.
\<close>

theorem blockUser_contract:
  assumes tok: "verifyToken E token = Inr uid"
    and a: "ObjectId_new E uid = Some a"
    and b: "ObjectId_new E target = Some b"
  shows "(findById E (users st) target = Inr None \<longrightarrow>
            blockUser E new_id target token st = Inl (Error ''User not found'')) \<and>
         ((\<exists>y. findById E (users st) target = Inr (Some y)) \<and> target = uid \<longrightarrow>
            blockUser E new_id target token st = Inl (Error ''You cannot block yourself'')) \<and>
         ((\<exists>x. findById E (users st) uid = Inr (Some x)) \<and>
          (\<exists>y. findById E (users st) target = Inr (Some y)) \<and> target \<noteq> uid \<and>
          (\<exists>e\<in>set (blocks st). userId e = Oid a \<and> blockedUserId e = Oid b) \<longrightarrow>
            blockUser E new_id target token st = Inl (Error ''User already blocked'')) \<and>
         (\<forall>u st'. blockUser E new_id target token st = Inr (u, st') \<longrightarrow>
            findById E (users st) target = Inr (Some u) \<and>
            blocks st' = blocks st @ [\<lparr>b_id = new_id, userId = Oid a, blockedUserId = Oid b\<rparr>] \<and>
            users st' = users st \<and> redis st' = redis st) \<and>
         (\<forall>y. (\<exists>x. findById E (users st) uid = Inr (Some x)) \<and>
              findById E (users st) target = Inr (Some y) \<and> target \<noteq> uid \<and>
              \<not> (\<exists>e\<in>set (blocks st). userId e = Oid a \<and> blockedUserId e = Oid b) \<and>
              \<not> (\<exists>e\<in>set (blocks st). b_id e = new_id) \<longrightarrow>
            blockUser E new_id target token st =
              Inr (y, st\<lparr>blocks := blocks st @
                     [\<lparr>b_id = new_id, userId = Oid a, blockedUserId = Oid b\<rparr>]\<rparr>))"
proof -
  have ids: "u_id x = a" if "findById E (users st) uid = Inr (Some x)" for x
    using findById_Some [OF that] a by simp
  have idt: "u_id y = b" if "findById E (users st) target = Inr (Some y)" for y
    using findById_Some [OF that] b by simp
  have actor: "\<exists>r. findById E (users st) uid = Inr r"
    using a by (simp add: findById_def)
  have c1: "findById E (users st) target = Inr None \<longrightarrow>
      blockUser E new_id target token st = Inl (Error ''User not found'')"
    using tok actor by (auto simp: blockUser_def)
  have c2: "(\<exists>y. findById E (users st) target = Inr (Some y)) \<and> target = uid \<longrightarrow>
      blockUser E new_id target token st = Inl (Error ''You cannot block yourself'')"
    using tok by (auto simp: blockUser_def)
  have c3: "(\<exists>x. findById E (users st) uid = Inr (Some x)) \<and>
      (\<exists>y. findById E (users st) target = Inr (Some y)) \<and> target \<noteq> uid \<and>
      (\<exists>e\<in>set (blocks st). userId e = Oid a \<and> blockedUserId e = Oid b) \<longrightarrow>
      blockUser E new_id target token st = Inl (Error ''User already blocked'')"
  proof
    assume h: "(\<exists>x. findById E (users st) uid = Inr (Some x)) \<and>
      (\<exists>y. findById E (users st) target = Inr (Some y)) \<and> target \<noteq> uid \<and>
      (\<exists>e\<in>set (blocks st). userId e = Oid a \<and> blockedUserId e = Oid b)"
    then obtain x y where x: "findById E (users st) uid = Inr (Some x)"
      and y: "findById E (users st) target = Inr (Some y)"
      by blast
    have ne: "target \<noteq> uid"
      using h by simp
    have "list_ex (\<lambda>e. userId e = Oid (u_id x) \<and> blockedUserId e = Oid (u_id y)) (blocks st)"
      using h ids [OF x] idt [OF y] by (simp add: list_ex_iff)
    then show "blockUser E new_id target token st = Inl (Error ''User already blocked'')"
      by (simp add: blockUser_found [OF tok x y ne])
  qed
  have c4: "\<forall>u st'. blockUser E new_id target token st = Inr (u, st') \<longrightarrow>
      findById E (users st) target = Inr (Some u) \<and>
      blocks st' = blocks st @ [\<lparr>b_id = new_id, userId = Oid a, blockedUserId = Oid b\<rparr>] \<and>
      users st' = users st \<and> redis st' = redis st"
  proof (intro allI impI)
    fix u st'
    assume run: "blockUser E new_id target token st = Inr (u, st')"
    from blockUser_Inr [OF tok run] obtain x where
      x: "findById E (users st) uid = Inr (Some x)" and
      u: "findById E (users st) target = Inr (Some u)" and
      st': "st' = st\<lparr>blocks := blocks st @
              [\<lparr>b_id = new_id, userId = Oid (u_id x), blockedUserId = Oid (u_id u)\<rparr>]\<rparr>"
      by blast
    show "findById E (users st) target = Inr (Some u) \<and>
      blocks st' = blocks st @ [\<lparr>b_id = new_id, userId = Oid a, blockedUserId = Oid b\<rparr>] \<and>
      users st' = users st \<and> redis st' = redis st"
      using u st' ids [OF x] idt [OF u] by simp
  qed
  have c5: "\<forall>y. (\<exists>x. findById E (users st) uid = Inr (Some x)) \<and>
      findById E (users st) target = Inr (Some y) \<and> target \<noteq> uid \<and>
      \<not> (\<exists>e\<in>set (blocks st). userId e = Oid a \<and> blockedUserId e = Oid b) \<and>
      \<not> (\<exists>e\<in>set (blocks st). b_id e = new_id) \<longrightarrow>
      blockUser E new_id target token st =
        Inr (y, st\<lparr>blocks := blocks st @
               [\<lparr>b_id = new_id, userId = Oid a, blockedUserId = Oid b\<rparr>]\<rparr>)"
  proof (intro allI impI)
    fix y
    assume h: "(\<exists>x. findById E (users st) uid = Inr (Some x)) \<and>
      findById E (users st) target = Inr (Some y) \<and> target \<noteq> uid \<and>
      \<not> (\<exists>e\<in>set (blocks st). userId e = Oid a \<and> blockedUserId e = Oid b) \<and>
      \<not> (\<exists>e\<in>set (blocks st). b_id e = new_id)"
    then obtain x where x: "findById E (users st) uid = Inr (Some x)"
      by blast
    have y: "findById E (users st) target = Inr (Some y)" and ne: "target \<noteq> uid"
      using h by simp_all
    have "\<not> list_ex (\<lambda>e. userId e = Oid (u_id x) \<and> blockedUserId e = Oid (u_id y)) (blocks st)"
      and "\<not> list_ex (\<lambda>e. b_id e = new_id) (blocks st)"
      using h ids [OF x] idt [OF y] by (simp_all add: list_ex_iff)
    then show "blockUser E new_id target token st =
        Inr (y, st\<lparr>blocks := blocks st @
               [\<lparr>b_id = new_id, userId = Oid a, blockedUserId = Oid b\<rparr>]\<rparr>)"
      using ids [OF x] idt [OF y] by (simp add: blockUser_found [OF tok x y ne])
  qed
  show ?thesis
    by (intro conjI c1 c2 c3 c4 c5)
qed

text \<open>
  Alice blocks an identifier nobody has, herself, Bob a second time, and Carol.
\<close>

theorem blockUser_contract_witness:
  "verifyToken (sample_env []) alice_token = Inr alice_id \<and>
   blockUser (sample_env []) edge1 nobody_id alice_token sample_state =
     Inl (Error ''User not found'') \<and>
   blockUser (sample_env []) edge1 alice_id alice_token sample_state =
     Inl (Error ''You cannot block yourself'') \<and>
   blockUser (sample_env []) edge4 bob_id alice_token sample_edges =
     Inl (Error ''User already blocked'') \<and>
   blockUser (sample_env []) edge4 carol_id alice_token sample_edges =
     Inr (carol, sample_edges\<lparr>blocks := blocks sample_edges @
        [\<lparr>b_id = edge4, userId = Oid (ObjectId alice_id), blockedUserId = Oid (ObjectId carol_id)\<rparr>]\<rparr>)"
proof -
  let ?E = "sample_env []"
  have tok: "verifyToken ?E alice_token = Inr alice_id"
    by simp
  have a: "ObjectId_new ?E alice_id = Some (ObjectId alice_id)"
    and b: "ObjectId_new ?E bob_id = Some (ObjectId bob_id)"
    and c: "ObjectId_new ?E carol_id = Some (ObjectId carol_id)"
    and n: "ObjectId_new ?E nobody_id = Some (ObjectId nobody_id)"
    by simp_all
  have edges: "edge1 \<noteq> edge4" "edge2 \<noteq> edge4" "edge3 \<noteq> edge4"
    by (simp_all add: edge1_def edge2_def edge3_def edge4_def)
  have c1: "blockUser ?E edge1 nobody_id alice_token sample_state = Inl (Error ''User not found'')"
    by (rule blockUser_contract [OF tok a n, THEN conjunct1, THEN mp])
      (simp add: sample_state_def)
  have c2: "blockUser ?E edge1 alice_id alice_token sample_state =
      Inl (Error ''You cannot block yourself'')"
    by (rule blockUser_contract [OF tok a a, THEN conjunct2, THEN conjunct1, THEN mp])
      (simp add: sample_state_def)
  have c3: "blockUser ?E edge4 bob_id alice_token sample_edges =
      Inl (Error ''User already blocked'')"
    by (rule blockUser_contract [OF tok a b, THEN conjunct2, THEN conjunct2, THEN conjunct1, THEN mp])
      (simp add: sample_edges_def sample_state_def alice_blocks_bob_def)
  have c5: "blockUser ?E edge4 carol_id alice_token sample_edges =
      Inr (carol, sample_edges\<lparr>blocks := blocks sample_edges @
        [\<lparr>b_id = edge4, userId = Oid (ObjectId alice_id), blockedUserId = Oid (ObjectId carol_id)\<rparr>]\<rparr>)"
    by (rule blockUser_contract [OF tok a c, THEN conjunct2, THEN conjunct2, THEN conjunct2,
          THEN conjunct2, THEN spec, THEN mp])
      (simp add: edges sample_edges_def sample_state_def alice_blocks_bob_def
        bob_blocks_alice_def bob_blocks_carol_def)
  show ?thesis
    using tok c1 c2 c3 c5 by blast
qed

section \<open>Search\<close>

text \<open>
  What \<^verbatim>\<open>searchUsers\<close> returns, for an actor whose token verifies and whose identifier is
  an ObjectId, a pattern that compiles and dates that are valid: the users of the store
  other than the actor whose identifier is not the identifier of an edge holding the
  actor's string, and whose username passes the pattern's test or who match the age
  condition.
\<close>

lemma searchUsers_set:
  assumes "verifyToken E token = Inr A"
    and "ObjectId_new E A = Some a"
    and "RegExp_i E (case fragment of None \<Rightarrow> [] | Some p \<Rightarrow> p) = Some test"
    and "castAgeCondition (ageCondition now minAge maxAge) = Inr w"
  shows "searchUsers E now fragment token minAge maxAge st =
           Inr (filter
             (\<lambda>u. (u_id u \<noteq> a \<and> u_id u \<notin> b_id ` {b \<in> set (blocks st). userId b = Str A}) \<and>
                  (test (username u) \<or> matchesAge w u))
             (users st))"
  using assms by (simp add: searchUsers_def Let_def)

text \<open>
  The edges the service writes hold ObjectIds, so the query of line 195 finds none of
  them and nothing but the actor is excluded.
\<close>

lemma searchUsers_excludes_no_edge:
  assumes "\<forall>e\<in>set (blocks st). \<exists>x y. userId e = Oid x \<and> blockedUserId e = Oid y"
  shows "b_id ` {b \<in> set (blocks st). userId b = Str A} = {}"
  using assms by auto

text \<open>
  With no age condition the second branch of \<^verbatim>\<open>$or\<close> is the empty query, and the pattern
  no longer matters.
\<close>

lemma searchUsers_no_ageCondition:
  assumes "verifyToken E token = Inr A"
    and "ObjectId_new E A = Some a"
    and "RegExp_i E (case fragment of None \<Rightarrow> [] | Some p \<Rightarrow> p) = Some test"
    and "ageCondition now minAge maxAge = None"
  shows "searchUsers E now fragment token minAge maxAge st =
           Inr (filter
             (\<lambda>u. u_id u \<noteq> a \<and> u_id u \<notin> b_id ` {b \<in> set (blocks st). userId b = Str A})
             (users st))"
  using assms by (simp add: searchUsers_def Let_def castAgeCondition_def matchesAge_def)

lemmas date_defs =
  setFullYear_def new_Date_def getFullYear_def TimeClip_def time_value_def MakeDay_def
  DayFromYear_def leap_year_def date_le_def

text \<open>
  C1 (a user the actor has blocked never appears in the actor's search results) does not
  hold of the code. Alice blocks Bob in the sample directory; her search for \<^verbatim>\<open>bob\<close>, with
  an age window from 60 to 70 that no user falls into, returns Bob. The edge holds
  ObjectIds and is looked for by Alice's identifier as a string, so it is not found; and
  an edge that is found adds its own identifier to the exclusion list, not Bob's.
\<close>

theorem searchUsers_returns_blocked_user:
  "blockUser (sample_env []) edge1 bob_id alice_token sample_state = Inr (bob, sample_blocked) \<and>
   searchUsers (sample_env []) sample_now (Some ''bob'') alice_token (Some 60) (Some 70)
     sample_blocked = Inr [bob]"
proof -
  have "blockUser (sample_env []) edge1 bob_id alice_token sample_state = Inr (bob, sample_blocked)"
    by (simp add: blockUser_def sample_blocked_def sample_state_def alice_blocks_bob_def)
  moreover have "searchUsers (sample_env []) sample_now (Some ''bob'') alice_token (Some 60) (Some 70)
     sample_blocked = Inr [bob]"
    by (simp add: searchUsers_def sample_blocked_def sample_state_def sample_now_def
        alice_blocks_bob_def ageCondition_def castAgeCondition_def castDate_def matchesAge_def
        date_defs alice_def bob_def carol_def lower_def)
  ultimately show ?thesis
    by simp
qed

text \<open>
  C2 (a candidate is returned if and only if its username contains the fragment or its
  birthdate satisfies the age predicate; with no age predicate a candidate whose username
  does not contain the fragment is not returned) does not hold of the code when the age
  predicate is absent. Alice searches for \<^verbatim>\<open>zzz\<close>, which neither Bob's nor Carol's username
  contains: with no age bound, and with the inverted bounds 40 and 30, both are returned.
\<close>

theorem searchUsers_without_age_returns_all:
  "(case RegExp_i (sample_env []) ''zzz'' of
      None \<Rightarrow> False
    | Some test \<Rightarrow> \<not> test (username bob) \<and> \<not> test (username carol)) \<and>
   searchUsers (sample_env []) sample_now (Some ''zzz'') alice_token None None sample_state
     = Inr [bob, carol] \<and>
   searchUsers (sample_env []) sample_now (Some ''zzz'') alice_token (Some 40) (Some 30)
     sample_state = Inr [bob, carol]"
  by (simp add: searchUsers_def sample_state_def ageCondition_def castAgeCondition_def
      matchesAge_def lower_def)

text \<open>
  C3 (with only \<open>minAge\<close> given the age predicate accepts the birthdates on or before today
  minus \<open>minAge\<close> years) does not hold of the code: the bound is the first of January of
  the year \<open>minAge\<close> years back. On 3 November 2026 with \<open>minAge\<close> 26 the bound is 1 January
  2000, so Bob, born on 1 March 2000 and 26 years old, is not accepted, although his
  birthdate is before 3 November 2000 and the branch for both bounds accepts him with
  the same \<open>minAge\<close>. Alice's search for \<^verbatim>\<open>zzz\<close> finds Carol alone with \<open>minAge\<close> 26, and
  Bob and Carol with \<open>minAge\<close> 26 and \<open>maxAge\<close> 200.
\<close>

theorem ageCondition_minAge_only:
  "ageCondition sample_now (Some 26) None =
     Some \<lparr>gte = None, lte = Some (Date_of \<lparr>year = 2000, month = 0, day = 1, tod = 0\<rparr>)\<rparr> \<and>
   setFullYear sample_now (getFullYear sample_now - 26) =
     Date_of \<lparr>year = 2000, month = 10, day = 3, tod = 36000000\<rparr> \<and>
   date_le (birthdate bob) \<lparr>year = 2000, month = 10, day = 3, tod = 36000000\<rparr> \<and>
   castAgeCondition (ageCondition sample_now (Some 26) None) =
     Inr (Some \<lparr>from_date = None, to_date = Some \<lparr>year = 2000, month = 0, day = 1, tod = 0\<rparr>\<rparr>) \<and>
   \<not> matchesAge
       (Some \<lparr>from_date = None, to_date = Some \<lparr>year = 2000, month = 0, day = 1, tod = 0\<rparr>\<rparr>) bob \<and>
   castAgeCondition (ageCondition sample_now (Some 26) (Some 200)) =
     Inr (Some \<lparr>from_date = Some \<lparr>year = 1826, month = 10, day = 3, tod = 36000000\<rparr>,
                to_date = Some \<lparr>year = 2000, month = 10, day = 3, tod = 36000000\<rparr>\<rparr>) \<and>
   matchesAge
     (Some \<lparr>from_date = Some \<lparr>year = 1826, month = 10, day = 3, tod = 36000000\<rparr>,
            to_date = Some \<lparr>year = 2000, month = 10, day = 3, tod = 36000000\<rparr>\<rparr>) bob \<and>
   searchUsers (sample_env []) sample_now (Some ''zzz'') alice_token (Some 26) None sample_state
     = Inr [carol] \<and>
   searchUsers (sample_env []) sample_now (Some ''zzz'') alice_token (Some 26) (Some 200)
     sample_state = Inr [bob, carol]"
  by (simp add: searchUsers_def sample_state_def sample_now_def ageCondition_def
      castAgeCondition_def castDate_def matchesAge_def date_defs alice_def bob_def carol_def
      lower_def)

text \<open>
  The actor is never among the results of the actor's own search, and every result is a
  user of the store.
\<close>

theorem searchUsers_excludes_actor:
  assumes "verifyToken E token = Inr A"
    and "searchUsers E now fragment token minAge maxAge st = Inr r"
  shows "\<forall>u\<in>set r. ObjectId_new E A \<noteq> Some (u_id u) \<and> u \<in> set (users st)"
  using assms
  by (auto simp: searchUsers_def Let_def split: option.splits sum.splits)

text \<open>
  Alice searches for \<^verbatim>\<open>ALI\<close>, which only her own username contains, with an age window no
  user falls into: nothing is returned.
\<close>

theorem searchUsers_excludes_actor_witness:
  "verifyToken (sample_env []) alice_token = Inr alice_id \<and>
   (case RegExp_i (sample_env []) ''ALI'' of None \<Rightarrow> False | Some test \<Rightarrow> test (username alice)) \<and>
   searchUsers (sample_env []) sample_now (Some ''ALI'') alice_token (Some 60) (Some 70)
     sample_state = Inr []"
proof -
  have tok: "verifyToken (sample_env []) alice_token = Inr alice_id"
    by simp
  have run: "searchUsers (sample_env []) sample_now (Some ''ALI'') alice_token (Some 60) (Some 70)
     sample_state = Inr []"
    by (simp add: searchUsers_def sample_state_def sample_now_def ageCondition_def
        castAgeCondition_def castDate_def matchesAge_def date_defs alice_def bob_def carol_def
      lower_def)
  have "case RegExp_i (sample_env []) ''ALI'' of None \<Rightarrow> False | Some test \<Rightarrow> test (username alice)"
    by (simp add: lower_def)
  then show ?thesis
    using tok run searchUsers_excludes_actor [OF tok run] by simp
qed

text \<open>
  The age condition in the branches other than \<open>minAge\<close> alone, where today minus \<open>n\<close>
  years is \<^verbatim>\<open>setFullYear\<close> of today's year less \<open>n\<close>. With both bounds in order and both
  dates valid, a birthdate is accepted exactly from today minus \<open>maxAge\<close> years to today
  minus \<open>minAge\<close> years, and a date that is not valid fails the query; inverted bounds
  give no condition; \<open>maxAge\<close> alone accepts the birthdates on or after today minus
  \<open>maxAge\<close> years; no bound gives no condition.
\<close>

theorem ageCondition_window:
  "(mn \<le> mx \<and> setFullYear now (getFullYear now - mx) = Date_of lo \<and>
    setFullYear now (getFullYear now - mn) = Date_of hi \<longrightarrow>
      (\<exists>w. castAgeCondition (ageCondition now (Some mn) (Some mx)) = Inr w \<and>
         (matchesAge w u \<longleftrightarrow> date_le lo (birthdate u) \<and> date_le (birthdate u) hi))) \<and>
   (mn \<le> mx \<and> (setFullYear now (getFullYear now - mx) = Invalid_Date \<or>
                setFullYear now (getFullYear now - mn) = Invalid_Date) \<longrightarrow>
      castAgeCondition (ageCondition now (Some mn) (Some mx)) = Inl CastError) \<and>
   (mx < mn \<longrightarrow> ageCondition now (Some mn) (Some mx) = None) \<and>
   (setFullYear now (getFullYear now - mx) = Date_of lo \<longrightarrow>
      (\<exists>w. castAgeCondition (ageCondition now None (Some mx)) = Inr w \<and>
         (matchesAge w u \<longleftrightarrow> date_le lo (birthdate u)))) \<and>
   ageCondition now None None = None"
  by (auto simp: ageCondition_def castAgeCondition_def castDate_def matchesAge_def
      split: date_value.splits)

text \<open>
  On 3 November 2026 the window from 30 to 40 years accepts Alice, who is 36, and neither
  Bob, who is 26, nor Carol, who is 45; a window from 30 to 300000 years reaches before
  the first date there is and fails the query.
\<close>

theorem ageCondition_window_witness:
  "(\<exists>w. castAgeCondition (ageCondition sample_now (Some 30) (Some 40)) = Inr w \<and>
      matchesAge w alice \<and> \<not> matchesAge w bob \<and> \<not> matchesAge w carol) \<and>
   castAgeCondition (ageCondition sample_now (Some 30) (Some 300000)) = Inl CastError \<and>
   ageCondition sample_now (Some 40) (Some 30) = None"
proof -
  let ?lo = "\<lparr>year = 1986, month = 10, day = 3, tod = 36000000\<rparr>"
  let ?hi = "\<lparr>year = 1996, month = 10, day = 3, tod = 36000000\<rparr>"
  have le: "(30::int) \<le> 40"
    by simp
  have lo: "setFullYear sample_now (getFullYear sample_now - 40) = Date_of ?lo"
    and hi: "setFullYear sample_now (getFullYear sample_now - 30) = Date_of ?hi"
    by (simp_all add: sample_now_def date_defs)
  note W = ageCondition_window [of 30 40 sample_now ?lo ?hi, THEN conjunct1, THEN mp]
  have cast: "castAgeCondition (ageCondition sample_now (Some 30) (Some 40)) =
      Inr (Some \<lparr>from_date = Some ?lo, to_date = Some ?hi\<rparr>)"
    using lo hi by (simp add: ageCondition_def castAgeCondition_def castDate_def)
  have "date_le ?lo (birthdate alice) \<and> date_le (birthdate alice) ?hi"
    by (simp add: alice_def date_defs)
  then have a: "matchesAge (Some \<lparr>from_date = Some ?lo, to_date = Some ?hi\<rparr>) alice"
    using W [of alice] le lo hi cast by auto
  have "\<not> date_le (birthdate bob) ?hi"
    by (simp add: bob_def date_defs)
  then have b: "\<not> matchesAge (Some \<lparr>from_date = Some ?lo, to_date = Some ?hi\<rparr>) bob"
    using W [of bob] le lo hi cast by auto
  have "\<not> date_le ?lo (birthdate carol)"
    by (simp add: carol_def date_defs)
  then have c: "\<not> matchesAge (Some \<lparr>from_date = Some ?lo, to_date = Some ?hi\<rparr>) carol"
    using W [of carol] le lo hi cast by auto
  have "setFullYear sample_now (getFullYear sample_now - 300000) = Invalid_Date"
    by (simp add: sample_now_def date_defs)
  then have d: "castAgeCondition (ageCondition sample_now (Some 30) (Some 300000)) = Inl CastError"
    using ageCondition_window [of 30 300000 sample_now, THEN conjunct2, THEN conjunct1] by simp
  have e: "ageCondition sample_now (Some 40) (Some 30) = None"
    using ageCondition_window [of 40 30 sample_now, THEN conjunct2, THEN conjunct2, THEN conjunct1]
    by simp
  show ?thesis
    using cast a b c d e by simp
qed

end
